theory Spec2Isabelle
  imports Main "HOL-Library.AList"
begin

section \<open>Data model\<close>

text \<open>
  A shallow embedding of the request handler of \<^verbatim>\<open>src/index.ts\<close> and of its compiled
  form \<^verbatim>\<open>out/index.js\<close>.  JavaScript strings and \<^verbatim>\<open>Buffer\<close>s are both lists of
  characters; \<^verbatim>\<open>Buffer.from(s)\<close> (the UTF-8 encoding of \<open>s\<close>) is the identity on them, and
  \<^verbatim>\<open>byteLength\<close> is the length of the list.
\<close>

type_synonym buffer = string

definition Buffer_from :: "string \<Rightarrow> buffer" where
  "Buffer_from s = s"

definition byteLength :: "buffer \<Rightarrow> nat" where
  "byteLength b = length b"

text \<open>Thrown values (a rejected promise carries one).\<close>

datatype error = Error string

text \<open>\<^verbatim>\<open>IServerOptions\<close>: every field is optional.\<close>

record IServerOptions =
  opt_rootDir :: "string option"
  opt_etag :: "bool option"
  opt_expires :: "int option"

text \<open>The variables \<^verbatim>\<open>rootDir\<close>, \<^verbatim>\<open>useETag\<close> and \<^verbatim>\<open>expires\<close> that the inner
  functions of \<^verbatim>\<open>createServer\<close> close over.\<close>

record closure =
  rootDir :: string
  useETag :: bool
  expires :: int

text \<open>The part of \<^verbatim>\<open>http.IncomingMessage\<close> that the handler reads (\<open>req_method\<close> is its
  \<^verbatim>\<open>method\<close> property).  Node stores header names in lower case.\<close>

record IncomingMessage =
  req_method :: "string option"
  url :: "string option"
  headers :: "string \<rightharpoonup> string"

text \<open>A header object: keys in insertion order; a value is a string or a number.\<close>

datatype hval = Str string | Num nat

type_synonym header_obj = "(string \<times> hval) list"

text \<open>The response object is modelled by the calls made on it, in order:
  \<^verbatim>\<open>res.writeHead(status, statusText, headers)\<close> and \<^verbatim>\<open>res.end(body)\<close>
  (\<open>End None\<close> is \<^verbatim>\<open>res.end()\<close>).\<close>

datatype call = is_WriteHead: WriteHead nat string header_obj | is_End: End "buffer option"

text \<open>\<^verbatim>\<open>fs.Stats\<close> and \<^verbatim>\<open>fs.Dirent\<close>, as far as they are read.\<close>

datatype Stats = Stats (stats_isDirectory: bool)

record Dirent =
  name :: string
  isDirectory :: bool

text \<open>The file system, seen through the four wrappers at the end of the source file:
  each resolves to \<^verbatim>\<open>null\<close> (\<open>None\<close>) when the underlying call reports an error and never
  rejects.\<close>

record filesystem =
  fsExists :: "string \<Rightarrow> bool"
  fsSafeStat :: "string \<Rightarrow> Stats option"
  fsSafeRead :: "string \<Rightarrow> buffer option"
  fsSafeReadDir :: "string \<Rightarrow> Dirent list option"

datatype probe = ReadFile string | Stat string | ReadDir string

text \<open>Everything a request does that can be observed: the calls on the response object, the
  lines written to the console, and the file-system wrappers awaited, in order.\<close>

record effects =
  res :: "call list"
  console :: "string list"
  probes :: "probe list"

definition probing :: "probe \<Rightarrow> effects \<Rightarrow> effects" where
  "probing p e = e\<lparr>probes := p # probes e\<rparr>"

text \<open>The Node.js runtime the module imports (\<^verbatim>\<open>path\<close>, \<^verbatim>\<open>url\<close>, \<^verbatim>\<open>crypto\<close>,
  \<^verbatim>\<open>Date\<close>, \<^verbatim>\<open>String.prototype.localeCompare\<close>, \<^verbatim>\<open>process.cwd\<close>) is a parameter of
  the model.  \<open>url_parse_pathname u\<close> is \<^verbatim>\<open>url.parse(u).pathname\<close>: \<open>Inr None\<close> when the
  property is \<^verbatim>\<open>null\<close>, \<open>Inl e\<close> when \<^verbatim>\<open>url.parse\<close> throws.  \<open>md5_hex b\<close> is
  \<^verbatim>\<open>crypto.createHash('md5').update(b).digest("hex")\<close> and \<open>toUTCString t\<close> is
  \<^verbatim>\<open>new Date(t).toUTCString()\<close>.\<close>

record node =
  path_sep :: string
  path_normalize :: "string \<Rightarrow> string"
  path_join :: "string list \<Rightarrow> string"
  path_relative :: "string \<Rightarrow> string \<Rightarrow> string"
  path_extname :: "string \<Rightarrow> string"
  path_posix_join :: "string list \<Rightarrow> string"
  url_parse_pathname :: "string \<Rightarrow> error + string option"
  md5_hex :: "buffer \<Rightarrow> string"
  toUTCString :: "int \<Rightarrow> string"
  localeCompare :: "string \<Rightarrow> string \<Rightarrow> int"
  process_cwd :: string

section \<open>The response writers\<close>

definition notFound :: "string \<Rightarrow> effects" where
  "notFound extra =
     \<lparr>res = [WriteHead 404 ''Not found'' [],
             End (Some (''Not found'' @ (if extra \<noteq> [] then '' - '' @ extra else [])))],
      console = [], probes = []\<rparr>"

definition redirect :: "string \<Rightarrow> effects" where
  "redirect location =
     \<lparr>res = [WriteHead 302 ''Found'' [(''Location'', Str location)],
             End (Some (''Location: '' @ location))],
      console = [], probes = []\<rparr>"

text \<open>\<^verbatim>\<open>headers[k] = v\<close> on a header object.\<close>

definition set_header :: "string \<Rightarrow> hval \<Rightarrow> header_obj \<Rightarrow> header_obj" where
  "set_header k v hs = AList.update k v hs"

text \<open>The \<^verbatim>\<open>switch (extname)\<close> of \<^verbatim>\<open>serveFile\<close> in \<^verbatim>\<open>src/index.ts\<close>: the header object
  after it and the console lines it logs.\<close>

definition mime_switch :: "string \<Rightarrow> header_obj \<Rightarrow> header_obj \<times> string list" where
  "mime_switch extname hs =
     (if extname = ''.html'' then (set_header ''Content-Type'' (Str ''text/html'') hs, [])
      else if extname = ''.htm'' then (set_header ''Content-Type'' (Str ''text/html'') hs, [])
      else if extname = ''.js'' then (set_header ''Content-Type'' (Str ''text/javascript'') hs, [])
      else if extname = ''.css'' then (set_header ''Content-Type'' (Str ''text/css'') hs, [])
      else if extname = ''.ttf'' then (set_header ''Content-Type'' (Str ''font/ttf'') hs, [])
      else if extname = ''.svg'' then (set_header ''Content-Type'' (Str ''image/svg+xml'') hs, [])
      else if extname = ''.wasm'' then
        (set_header ''Content-Type'' (Str ''application/wasm'') hs, [])
      else if extname = ''.map'' then (hs, [])
      else (hs, [''Unhandled mime-type for ext name: '' @ extname]))"

text \<open>The same \<^verbatim>\<open>switch\<close> in \<^verbatim>\<open>out/index.js\<close>.\<close>

definition mime_switch_out :: "string \<Rightarrow> header_obj \<Rightarrow> header_obj \<times> string list" where
  "mime_switch_out extname hs =
     (if extname = ''.css'' then
        (set_header ''Content-Type'' (Str ''text/css; charset=utf-8'') hs, [])
      else if extname = ''.htm'' then
        (set_header ''Content-Type'' (Str ''text/html; charset=utf-8'') hs, [])
      else if extname = ''.html'' then
        (set_header ''Content-Type'' (Str ''text/html; charset=utf-8'') hs, [])
      else if extname = ''.js'' then
        (set_header ''Content-Type'' (Str ''text/javascript; charset=utf-8'') hs, [])
      else if extname = ''.json'' then
        (set_header ''Content-Type'' (Str ''application/json; charset=utf-8'') hs, [])
      else if extname = ''.png'' then (set_header ''Content-Type'' (Str ''image/png'') hs, [])
      else if extname = ''.svg'' then (set_header ''Content-Type'' (Str ''image/svg+xml'') hs, [])
      else if extname = ''.ttf'' then (set_header ''Content-Type'' (Str ''font/ttf'') hs, [])
      else if extname = ''.txt'' then
        (set_header ''Content-Type'' (Str ''text/plain; charset=utf-8'') hs, [])
      else if extname = ''.wasm'' then
        (set_header ''Content-Type'' (Str ''application/wasm'') hs, [])
      else if extname = ''.map'' then (hs, [])
      else (hs, [''Unhandled mime-type for ext name: '' @ extname]))"

text \<open>The rest of \<^verbatim>\<open>serveFile\<close>, which is the same text in both files: \<open>hs\<close> is the header
  object and \<open>logged\<close> the console lines after the \<^verbatim>\<open>switch\<close>, \<open>now\<close> is the value of
  \<^verbatim>\<open>Date.now()\<close>.  A number is truthy when it is not zero.\<close>

definition serveFile_tail ::
  "node \<Rightarrow> closure \<Rightarrow> int \<Rightarrow> IncomingMessage \<Rightarrow> header_obj \<Rightarrow> string list \<Rightarrow> buffer
     \<Rightarrow> effects" where
  "serveFile_tail N S now req hs logged content =
     (let hs1 = (if expires S \<noteq> 0
                 then set_header ''Expires'' (Str (toUTCString N (now + expires S))) hs
                 else hs)
      in if useETag S then
           (let etag = md5_hex N content;
                hs2 = set_header ''ETag'' (Str etag) hs1
            in if headers req ''if-none-match'' = Some etag then
                 \<lparr>res = [WriteHead 304 ''Not modified'' hs2, End None],
                  console = logged, probes = []\<rparr>
               else
                 \<lparr>res = [WriteHead 200 ''OK''
                           (set_header ''Content-Length'' (Num (byteLength content)) hs2),
                         End (Some content)],
                  console = logged, probes = []\<rparr>)
         else
           \<lparr>res = [WriteHead 200 ''OK''
                     (set_header ''Content-Length'' (Num (byteLength content)) hs1),
                   End (Some content)],
            console = logged, probes = []\<rparr>)"

text \<open>\<^verbatim>\<open>serveFile\<close> of \<^verbatim>\<open>src/index.ts\<close>: the header object starts as
  \<^verbatim>\<open>{ 'Content-Encoding': 'utf8' }\<close>.\<close>

definition serveFile ::
  "node \<Rightarrow> closure \<Rightarrow> int \<Rightarrow> IncomingMessage \<Rightarrow> string \<Rightarrow> buffer \<Rightarrow> effects" where
  "serveFile N S now req extname content =
     (let (hs, logged) = mime_switch extname [(''Content-Encoding'', Str ''utf8'')]
      in serveFile_tail N S now req hs logged content)"

text \<open>\<^verbatim>\<open>serveFile\<close> of \<^verbatim>\<open>out/index.js\<close>: the header object starts empty.\<close>

definition serveFile_out ::
  "node \<Rightarrow> closure \<Rightarrow> int \<Rightarrow> IncomingMessage \<Rightarrow> string \<Rightarrow> buffer \<Rightarrow> effects" where
  "serveFile_out N S now req extname content =
     (let (hs, logged) = mime_switch_out extname []
      in serveFile_tail N S now req hs logged content)"

subsection \<open>The directory listing\<close>

text \<open>\<^verbatim>\<open>s.replace(/\\/g, '/')\<close>.\<close>

definition replace_backslashes :: "string \<Rightarrow> string" where
  "replace_backslashes s = map (\<lambda>c. if c = CHR 0x5C then CHR ''/'' else c) s"

text \<open>The comparison function handed to \<^verbatim>\<open>entries.sort\<close>.\<close>

definition compare_entries :: "node \<Rightarrow> Dirent \<Rightarrow> Dirent \<Rightarrow> int" where
  "compare_entries N a b =
     (let aIsDir = (if isDirectory a then 0 else 1);
          bIsDir = (if isDirectory b then 0 else 1)
      in if aIsDir = bIsDir then localeCompare N (name a) (name b) else aIsDir - bIsDir)"

text \<open>\<^verbatim>\<open>Array.prototype.sort\<close> with a comparison function is a stable sort; it is modelled
  by insertion sort, which places an element before the first one it does not compare
  greater than.\<close>

fun sort_insert :: "('a \<Rightarrow> 'a \<Rightarrow> int) \<Rightarrow> 'a \<Rightarrow> 'a list \<Rightarrow> 'a list" where
  "sort_insert cmp x [] = [x]"
| "sort_insert cmp x (y # ys) = (if cmp x y \<le> 0 then x # y # ys else y # sort_insert cmp x ys)"

definition array_sort :: "('a \<Rightarrow> 'a \<Rightarrow> int) \<Rightarrow> 'a list \<Rightarrow> 'a list" where
  "array_sort cmp xs = foldr (sort_insert cmp) xs []"

definition NL :: string where
  "NL = [CHR 0x0A]"

definition TAB :: string where
  "TAB = [CHR 0x09]"

text \<open>The fixed pieces of the template literal of \<^verbatim>\<open>serveDir\<close>, between its
  interpolations.\<close>

definition listing_title_open :: string where
  \<open>listing_title_open =
     NL @ ''<!DOCTYPE html>'' @ NL @ ''<html>'' @ NL @ TAB @ ''<head>'' @ NL @ TAB @ TAB @
     ''<title>Listing of ''\<close>

definition listing_style_open :: string where
  \<open>listing_style_open =
     ''</title>'' @ NL @ TAB @ TAB @ ''<style>'' @ NL @ ''.icon {'' @ NL @ TAB @
     ''display: inline-block;'' @ NL @ TAB @ ''width: 1em;'' @ NL @ TAB @ ''height: 1em;'' @
     NL @ TAB @ ''margin-right: 5px;'' @ NL @ TAB @ ''background-repeat: no-repeat;'' @ NL @
     ''}'' @ NL\<close>

definition file_icon_rule :: string where
  \<open>file_icon_rule =
     ''.file-icon { background-image: url("data:image/svg+xml,%3C%3Fxml version='1.0' encoding='iso-8859-1'%3F%3E%3Csvg version='1.1' id='Capa_1' xmlns='http://www.w3.org/2000/svg' xmlns:xlink='http://www.w3.org/1999/xlink' x='0px' y='0px' viewBox='0 0 368.553 368.553' style='enable-background:new 0 0 368.553 368.553;' xml:space='preserve'%3E%3Cg%3E%3Cg%3E%3Cpath d='M239.68,0H42.695v368.553h283.164V86.811L239.68,0z M244.057,25.7l56.288,56.701h-56.288V25.7z M57.695,353.553V15 h171.362v82.401h81.802v256.151H57.695V353.553z'/%3E%3Crect x='86.435' y='82.401' width='121.875' height='15'/%3E%3Crect x='86.435' y='151.122' width='195.685' height='15'/%3E%3Crect x='86.435' y='219.843' width='195.685' height='15'/%3E%3Crect x='86.435' y='288.563' width='195.685' height='15'/%3E%3C/g%3E%3C/g%3E%3C/svg%3E%0A"); }''\<close>

definition folder_icon_rule :: string where
  \<open>folder_icon_rule =
     ''.folder-icon { background-image: url("data:image/svg+xml,%3C%3Fxml version='1.0' encoding='iso-8859-1'%3F%3E%3C!-- Generator: Adobe Illustrator 19.0.0, SVG Export Plug-In . SVG Version: 6.00 Build 0) --%3E%3Csvg version='1.1' id='Layer_1' xmlns='http://www.w3.org/2000/svg' xmlns:xlink='http://www.w3.org/1999/xlink' x='0px' y='0px' viewBox='0 0 512 512' style='enable-background:new 0 0 512 512;' xml:space='preserve'%3E%3Cpath style='fill:%23FBC176;' d='M0,167.724v264.828c0,15.007,11.476,26.483,26.483,26.483h459.034 c15.007,0,26.483-11.476,26.483-26.483V167.724c0-15.007-11.476-26.483-26.483-26.483H26.483C11.476,141.241,0,153.6,0,167.724'/%3E%3Cpath style='fill:%23C39A6E;' d='M467.862,141.241c0-19.421-15.89-35.31-35.31-35.31H291.31l-44.138-52.966H52.966 c-15.007,0-26.483,12.359-26.483,26.483v61.793H467.862z'/%3E%3Cg%3E%3Cpath style='fill:%23FFFFFF;' d='M158.897,203.034H52.966c-5.297,0-8.828-3.531-8.828-8.828s3.531-8.828,8.828-8.828h105.931 c5.297,0,8.828,3.531,8.828,8.828S164.193,203.034,158.897,203.034'/%3E%3Cpath style='fill:%23FFFFFF;' d='M158.897,238.345H52.966c-5.297,0-8.828-3.531-8.828-8.828s3.531-8.828,8.828-8.828h105.931 c5.297,0,8.828,3.531,8.828,8.828S164.193,238.345,158.897,238.345'/%3E%3C/g%3E%3C/svg%3E%0A"); }''\<close>

definition listing_heading_open :: string where
  \<open>listing_heading_open =
     NL @ TAB @ TAB @ ''</style>'' @ NL @ TAB @ ''</head>'' @ NL @ TAB @ ''<body>'' @ NL @
     TAB @ TAB @ ''<h2>Listing of ''\<close>

definition listing_list_open :: string where
  \<open>listing_list_open =
     ''</h2>'' @ NL @ TAB @ TAB @ ''<ul style="list-style-type:none">'' @ NL @ TAB @ TAB @ TAB\<close>

definition listing_close :: string where
  \<open>listing_close =
     NL @ TAB @ TAB @ ''</ul>'' @ NL @ TAB @ ''</body>'' @ NL @ ''</html>'' @ NL\<close>

text \<open>One \<^verbatim>\<open><li>\<close> element, the body of the \<^verbatim>\<open>entries.map\<close> callback.\<close>

definition entry_item :: "node \<Rightarrow> string \<Rightarrow> Dirent \<Rightarrow> string" where
  \<open>entry_item N relativePath entry =
     ''<li> <span class="icon '' @ (if isDirectory entry then ''folder-icon'' else ''file-icon'')
     @ ''"></span><a href="'' @ path_posix_join N [relativePath, name entry]
     @ (if isDirectory entry then ''/'' else [])
     @ ''">'' @ name entry @ ''</a></li>'' @ NL\<close>

text \<open>\<^verbatim>\<open>serveDir\<close>; \<open>sf\<close> is the \<^verbatim>\<open>serveFile\<close> in scope.\<close>

definition serveDir ::
  "(node \<Rightarrow> closure \<Rightarrow> int \<Rightarrow> IncomingMessage \<Rightarrow> string \<Rightarrow> buffer \<Rightarrow> effects)
     \<Rightarrow> node \<Rightarrow> closure \<Rightarrow> int \<Rightarrow> IncomingMessage \<Rightarrow> string \<Rightarrow> Dirent list \<Rightarrow> effects" where
  "serveDir sf N S now req dirPath entries =
     (let relativePath = replace_backslashes (path_sep N @ path_relative N (rootDir S) dirPath);
          sorted_entries = array_sort (compare_entries N) entries;
          contents =
            listing_title_open @ relativePath @ listing_style_open @ file_icon_rule @ NL
            @ folder_icon_rule @ listing_heading_open @ relativePath @ listing_list_open
            @ concat (map (entry_item N relativePath) sorted_entries) @ listing_close
      in sf N S now req ''.html'' (Buffer_from contents))"

section \<open>The handler\<close>

text \<open>The value of \<^verbatim>\<open>expectedRequestPath\<close> when it is compared with the pathname.\<close>

definition expectedRequestPath :: "node \<Rightarrow> closure \<Rightarrow> string \<Rightarrow> string" where
  "expectedRequestPath N S requestedPath =
     (let expected = replace_backslashes (path_relative N (rootDir S) requestedPath) @ ''/''
      in if take 1 expected \<noteq> ''/'' then ''/'' @ expected else expected)"

text \<open>\<^verbatim>\<open>doHandle\<close>, the same text in both files.  The result is \<open>Inl e\<close> when the promise is
  rejected with \<open>e\<close>.  A \<^verbatim>\<open>Buffer\<close> and an array are truthy whatever they hold; a string is
  falsy when it is empty.\<close>

definition doHandle ::
  "(node \<Rightarrow> closure \<Rightarrow> int \<Rightarrow> IncomingMessage \<Rightarrow> string \<Rightarrow> buffer \<Rightarrow> effects)
     \<Rightarrow> node \<Rightarrow> closure \<Rightarrow> filesystem \<Rightarrow> int \<Rightarrow> IncomingMessage \<Rightarrow> error + effects" where
  "doHandle sf N S F now req =
     (if req_method req \<noteq> Some ''GET'' then Inr (notFound ''1'')
      else case url req of
        None \<Rightarrow> Inr (notFound ''1'')
      | Some u \<Rightarrow>
          if u = [] then Inr (notFound ''1'')
          else case url_parse_pathname N u of
            Inl err \<Rightarrow> Inl err
          | Inr None \<Rightarrow> Inr (notFound ''2'')
          | Inr (Some pathname) \<Rightarrow>
              if pathname = [] then Inr (notFound ''2'')
              else
                let requestedPath = path_normalize N (path_join N [rootDir S, pathname])
                in if take (length (rootDir S)) requestedPath \<noteq> rootDir S
                   then Inr (notFound ''3'')
                   else Inr (probing (ReadFile requestedPath)
                     (case fsSafeRead F requestedPath of
                        Some content \<Rightarrow> sf N S now req (path_extname N requestedPath) content
                      | None \<Rightarrow> probing (Stat requestedPath)
                          (case fsSafeStat F requestedPath of
                             None \<Rightarrow> notFound ''4''
                           | Some stats \<Rightarrow>
                               if \<not> stats_isDirectory stats then notFound ''4''
                               else if pathname \<noteq> expectedRequestPath N S requestedPath
                               then redirect (expectedRequestPath N S requestedPath)
                               else
                                 let indexPath =
                                       path_normalize N (path_join N [requestedPath, ''index.html''])
                                 in probing (ReadFile indexPath)
                                   (case fsSafeRead F indexPath of
                                      Some indexContent \<Rightarrow>
                                        sf N S now req (path_extname N indexPath) indexContent
                                    | None \<Rightarrow> probing (ReadDir requestedPath)
                                        (case fsSafeReadDir F requestedPath of
                                           Some dirEntries \<Rightarrow>
                                             serveDir sf N S now req requestedPath dirEntries
                                         | None \<Rightarrow> notFound ''5''))))))"

text \<open>\<^verbatim>\<open>handle\<close>: a rejection of \<^verbatim>\<open>doHandle\<close> is logged and answered with status 500.\<close>

definition handle ::
  "(node \<Rightarrow> closure \<Rightarrow> int \<Rightarrow> IncomingMessage \<Rightarrow> string \<Rightarrow> buffer \<Rightarrow> effects)
     \<Rightarrow> node \<Rightarrow> closure \<Rightarrow> filesystem \<Rightarrow> int \<Rightarrow> IncomingMessage \<Rightarrow> effects" where
  "handle sf N S F now req =
     (case doHandle sf N S F now req of
        Inr e \<Rightarrow> e
      | Inl (Error msg) \<Rightarrow>
          \<lparr>res = [WriteHead 500 ''Internal Server Error'' [],
                  End (Some ''Internal Server Error'')],
           console = [msg], probes = []\<rparr>)"

text \<open>\<^verbatim>\<open>createServer\<close> up to the point where the handler is returned: the closure variables,
  or the error thrown when the root directory does not exist.\<close>

definition createServer :: "node \<Rightarrow> filesystem \<Rightarrow> IServerOptions \<Rightarrow> error + closure" where
  "createServer N F options =
     (let rootDir' = path_normalize N
                       (case opt_rootDir options of Some r \<Rightarrow> r | None \<Rightarrow> process_cwd N);
          useETag' = (case opt_etag options of Some b \<Rightarrow> b | None \<Rightarrow> True);
          expires' = (case opt_expires options of Some n \<Rightarrow> n | None \<Rightarrow> 5 * 1000)
      in if \<not> fsExists F rootDir'
         then Inl (Error ((case opt_rootDir options of Some r \<Rightarrow> r | None \<Rightarrow> ''undefined'')
                           @ '' does not ''))
         else Inr \<lparr>rootDir = rootDir', useETag = useETag', expires = expires'\<rparr>)"

section \<open>A POSIX instance of the runtime\<close>

text \<open>The general results below hold for every runtime \<open>N\<close>.  For the concrete requests, the
  \<^verbatim>\<open>path\<close> functions are those of Node.js on POSIX, described on path segments:
  \<^verbatim>\<open>normalizeString\<close> drops empty and \<^verbatim>\<open>.\<close> segments and lets \<^verbatim>\<open>..\<close> remove the segment
  before it (keeping a leading \<^verbatim>\<open>..\<close> only in a relative path).\<close>

fun split_slash :: "string \<Rightarrow> string list" where
  "split_slash [] = [[]]"
| "split_slash (c # cs) =
     (if c = CHR ''/'' then [] # split_slash cs
      else (case split_slash cs of [] \<Rightarrow> [[c]] | s # ss \<Rightarrow> (c # s) # ss))"

fun join_slash :: "string list \<Rightarrow> string" where
  "join_slash [] = []"
| "join_slash [s] = s"
| "join_slash (s # t # ss) = s @ ''/'' @ join_slash (t # ss)"

fun normalizeString :: "bool \<Rightarrow> string list \<Rightarrow> string list \<Rightarrow> string list" where
  "normalizeString allowAboveRoot [] acc = acc"
| "normalizeString allowAboveRoot (s # ss) acc =
     (if s = [] \<or> s = ''.'' then normalizeString allowAboveRoot ss acc
      else if s = ''..'' then
        (if acc \<noteq> [] \<and> last acc \<noteq> ''..'' then normalizeString allowAboveRoot ss (butlast acc)
         else if allowAboveRoot then normalizeString allowAboveRoot ss (acc @ [''..''])
         else normalizeString allowAboveRoot ss acc)
      else normalizeString allowAboveRoot ss (acc @ [s]))"

definition posix_normalize :: "string \<Rightarrow> string" where
  "posix_normalize p =
     (if p = [] then ''.''
      else
        let isAbsolute = (hd p = CHR ''/'');
            trailingSeparator = (last p = CHR ''/'');
            q = join_slash (normalizeString (\<not> isAbsolute) (split_slash p) [])
        in if q = [] then (if isAbsolute then ''/'' else if trailingSeparator then ''./'' else ''.'')
           else (let q' = (if trailingSeparator then q @ ''/'' else q)
                 in if isAbsolute then ''/'' @ q' else q'))"

definition posix_join :: "string list \<Rightarrow> string" where
  "posix_join args =
     (let joined = join_slash (filter (\<lambda>arg. arg \<noteq> []) args)
      in if joined = [] then ''.'' else posix_normalize joined)"

text \<open>\<^verbatim>\<open>path.resolve(p)\<close> for an absolute working directory \<open>cwd\<close>: an absolute path without
  a trailing separator, given by its segments.\<close>

definition posix_resolve :: "string \<Rightarrow> string \<Rightarrow> string list" where
  "posix_resolve cwd p =
     normalizeString False (split_slash (if take 1 p = ''/'' then p else cwd @ ''/'' @ p)) []"

fun common_prefix :: "string list \<Rightarrow> string list \<Rightarrow> nat" where
  "common_prefix (x # xs) (y # ys) = (if x = y then Suc (common_prefix xs ys) else 0)"
| "common_prefix _ _ = 0"

definition posix_relative :: "string \<Rightarrow> string \<Rightarrow> string \<Rightarrow> string" where
  "posix_relative cwd from to =
     (if from = to then []
      else
        let f = posix_resolve cwd from;
            t = posix_resolve cwd to;
            n = common_prefix f t
        in join_slash (replicate (length f - n) ''..'' @ drop n t))"

text \<open>\<^verbatim>\<open>path.extname\<close>: from the last dot of the last segment, unless that dot is the
  segment's first character or the segment is \<^verbatim>\<open>..\<close>.\<close>

definition posix_extname :: "string \<Rightarrow> string" where
  "posix_extname p =
     (let segs = filter (\<lambda>s. s \<noteq> []) (split_slash p);
          base = (if segs = [] then [] else last segs);
          startDot = length base - Suc (length (takeWhile (\<lambda>c. c \<noteq> CHR ''.'') (rev base)))
      in if startDot = 0 \<or> base = ''..'' \<or> CHR ''.'' \<notin> set base then []
         else drop startDot base)"

text \<open>\<^verbatim>\<open>url.parse(u).pathname\<close> for a request target in origin form: a path that starts with
  one \<^verbatim>\<open>/\<close>, then optionally \<^verbatim>\<open>?query\<close> and \<^verbatim>\<open>#fragment\<close>, written without white space,
  control characters, \<^verbatim>\<open>@\<close>, a backslash or a character that \<^verbatim>\<open>url.parse\<close> escapes.  The
  pathname is then the text before the first \<^verbatim>\<open>?\<close> or \<^verbatim>\<open>#\<close>, as it stands: \<^verbatim>\<open>url.parse\<close>
  does not decode percent escapes.  A target that begins with \<^verbatim>\<open>?\<close> or \<^verbatim>\<open>#\<close> has no
  pathname (\<^verbatim>\<open>null\<close>).  Other request targets are outside this description and are given
  no pathname here.\<close>

definition url_plain_char :: "char \<Rightarrow> bool" where
  "url_plain_char c =
     (32 < (of_char c :: nat) \<and> (of_char c :: nat) < 127 \<and>
      c \<notin> set [CHR ''@'', CHR 0x5C, CHR ''{'', CHR ''}'', CHR ''|'', CHR ''^'', CHR 0x60,
                 CHR ''<'', CHR ''>'', CHR 0x22, CHR 0x27])"

definition origin_form_pathname :: "string \<Rightarrow> error + string option" where
  "origin_form_pathname u =
     (if take 1 u = ''/'' \<and> take 2 u \<noteq> ''//'' \<and> list_all url_plain_char u
      then Inr (Some (takeWhile (\<lambda>c. c \<noteq> CHR ''?'' \<and> c \<noteq> CHR ''#'') u))
      else Inr None)"

text \<open>The MD5 digests of the buffers that the concrete requests below serve (every other
  buffer is given the digest of the empty buffer: the concrete requests do not hash
  one), a fixed date text (the concrete servers set \<open>expires = 0\<close> and format no date),
  and the comparison of strings by character code.\<close>

definition example_md5 :: "buffer \<Rightarrow> string" where
  "example_md5 b =
     (if b = ''hello'' then ''5d41402abc4b2a76b9719d911017c592''
      else ''d41d8cd98f00b204e9800998ecf8427e'')"

fun code_compare :: "string \<Rightarrow> string \<Rightarrow> int" where
  "code_compare [] [] = 0"
| "code_compare [] (y # ys) = - 1"
| "code_compare (x # xs) [] = 1"
| "code_compare (x # xs) (y # ys) =
     (if (of_char x :: nat) < of_char y then - 1
      else if (of_char y :: nat) < of_char x then 1
      else code_compare xs ys)"

definition posix_node :: node where
  "posix_node =
     \<lparr>path_sep = ''/'',
      path_normalize = posix_normalize,
      path_join = posix_join,
      path_relative = posix_relative ''/'',
      path_extname = posix_extname,
      path_posix_join = posix_join,
      url_parse_pathname = origin_form_pathname,
      md5_hex = example_md5,
      toUTCString = (\<lambda>t. ''Thu, 01 Jan 1970 00:00:00 GMT''),
      localeCompare = code_compare,
      process_cwd = ''/''\<rparr>"

section \<open>Observations on a response\<close>

definition statuses :: "effects \<Rightarrow> nat list" where
  "statuses e =
     List.map_filter (\<lambda>c. case c of WriteHead st txt hs \<Rightarrow> Some st | End b \<Rightarrow> None) (res e)"

definition sent_headers :: "effects \<Rightarrow> header_obj" where
  "sent_headers e =
     concat (map (\<lambda>c. case c of WriteHead st txt hs \<Rightarrow> hs | End b \<Rightarrow> []) (res e))"

definition header_value :: "string \<Rightarrow> effects \<Rightarrow> hval option" where
  "header_value k e = map_of (sent_headers e) k"

definition bodies :: "effects \<Rightarrow> buffer option list" where
  "bodies e =
     List.map_filter (\<lambda>c. case c of WriteHead st txt hs \<Rightarrow> None | End b \<Rightarrow> Some b) (res e)"




definition same_body_and_etag :: "effects \<Rightarrow> effects \<Rightarrow> bool" where
  "same_body_and_etag a b =
     (statuses a = statuses b \<and> bodies a = bodies b \<and>
      header_value ''ETag'' a = header_value ''ETag'' b)"

text \<open>The request path that the specification's formula for a directory expects:
  \<^verbatim>\<open>"/" + relativePath(rootDir, candidate) + "/"\<close>, backslashes replaced.\<close>

definition spec_expected_path :: "node \<Rightarrow> closure \<Rightarrow> string \<Rightarrow> string" where
  "spec_expected_path N S candidate =
     ''/'' @ replace_backslashes (path_relative N (rootDir S) candidate) @ ''/''"

text \<open>Percent-decoding as the specification's step 2 words it: every \<^verbatim>\<open>%XY\<close> with two
  hexadecimal digits stands for the character with that code.\<close>

definition hex_digit :: "char \<Rightarrow> nat option" where
  "hex_digit c =
     (let n = (of_char c :: nat)
      in if 48 \<le> n \<and> n \<le> 57 then Some (n - 48)
         else if 65 \<le> n \<and> n \<le> 70 then Some (n - 55)
         else if 97 \<le> n \<and> n \<le> 102 then Some (n - 87)
         else None)"

fun spec_percent_decode :: "string \<Rightarrow> string" where
  "spec_percent_decode (c # h # l # cs) =
     (case (c = CHR ''%'', hex_digit h, hex_digit l) of
        (True, Some a, Some b) \<Rightarrow> char_of (16 * a + b) # spec_percent_decode cs
      | _ \<Rightarrow> c # spec_percent_decode (h # l # cs))"
| "spec_percent_decode cs = cs"

section \<open>Concrete servers, file systems and requests\<close>

text \<open>The server made by
  \<^verbatim>\<open>createServer({ rootDir: '/srv/www', etag: false, expires: 0 })\<close>, and the one with
  \<^verbatim>\<open>etag: true\<close>.\<close>

definition www_server :: closure where
  "www_server = \<lparr>rootDir = ''/srv/www'', useETag = False, expires = 0\<rparr>"

definition www_etag_server :: closure where
  "www_etag_server = \<lparr>rootDir = ''/srv/www'', useETag = True, expires = 0\<rparr>"

definition GET :: "string \<Rightarrow> IncomingMessage" where
  "GET u = \<lparr>req_method = Some ''GET'', url = Some u, headers = Map.empty\<rparr>"

text \<open>A disk with the served directory \<^verbatim>\<open>/srv/www\<close>, its sibling \<^verbatim>\<open>/srv/wwwevil\<close> and
  \<^verbatim>\<open>/etc/passwd\<close>.  A directory is found with or without a trailing separator; reading
  a directory as a file fails.\<close>

definition example_files :: "(string \<times> buffer) list" where
  "example_files =
     [(''/srv/www/a.txt'', ''hello''),
      (''/srv/www/a b.txt'', ''hello''),
      (''/srv/www/index.html'', ''hello''),
      (''/srv/wwwevil/secret.txt'', ''top secret''),
      (''/etc/passwd'', ''root:x:0:0'')]"

definition example_dirs :: "(string \<times> Dirent list) list" where
  "example_dirs =
     [(''/srv/www'',
         [\<lparr>name = ''a b.txt'', isDirectory = False\<rparr>, \<lparr>name = ''a.txt'', isDirectory = False\<rparr>,
          \<lparr>name = ''index.html'', isDirectory = False\<rparr>, \<lparr>name = ''sub'', isDirectory = True\<rparr>]),
      (''/srv/www/sub'', []),
      (''/srv/wwwevil'', [\<lparr>name = ''secret.txt'', isDirectory = False\<rparr>])]"

definition strip_slash :: "string \<Rightarrow> string" where
  "strip_slash p = (if 1 < length p \<and> last p = CHR ''/'' then butlast p else p)"

definition example_stat :: "string \<Rightarrow> Stats option" where
  "example_stat p =
     (case map_of example_files p of
        Some content \<Rightarrow> Some (Stats False)
      | None \<Rightarrow> (case map_of example_dirs (strip_slash p) of
                   Some entries \<Rightarrow> Some (Stats True)
                 | None \<Rightarrow> None))"

definition example_fs :: filesystem where
  "example_fs =
     \<lparr>fsExists = (\<lambda>p. case example_stat p of Some stats \<Rightarrow> True | None \<Rightarrow> False),
      fsSafeStat = example_stat,
      fsSafeRead = map_of example_files,
      fsSafeReadDir = (\<lambda>p. map_of example_dirs (strip_slash p))\<rparr>"

section \<open>Every request is answered exactly once\<close>

lemma res_probing: "res (probing p e) = res e"
  by (simp add: probing_def)

lemma console_probing: "console (probing p e) = console e"
  by (simp add: probing_def)

lemma probes_probing: "probes (probing p e) = p # probes e"
  by (simp add: probing_def)










section \<open>The containment check\<close>

text \<open>
  Claim C1.  When the request has a URL whose pathname \<open>pathname\<close> gives a candidate
  \<^verbatim>\<open>normalize(join(rootDir, pathname))\<close> that does not begin with \<^verbatim>\<open>rootDir\<close>, the answer is
  404 Not found and no file-system wrapper is called, whatever the file system holds and
  whichever file writer is in scope.
\<close>

theorem escape_is_not_found_without_probe:
  assumes "url req = Some u"
    and "url_parse_pathname N u = Inr (Some pathname)"
    and "take (length (rootDir S)) (path_normalize N (path_join N [rootDir S, pathname]))
           \<noteq> rootDir S"
  shows "(\<exists>body. res (handle sf N S F now req) = [WriteHead 404 ''Not found'' [], End (Some body)])
         \<and> statuses (handle sf N S F now req) = [404]
         \<and> probes (handle sf N S F now req) = []"
  using assms
  by (simp add: handle_def doHandle_def notFound_def statuses_def List.map_filter_simps Let_def)

text \<open>The request \<^verbatim>\<open>/../../etc/passwd\<close> against the root \<^verbatim>\<open>/srv/www\<close>, on a disk that has
  \<^verbatim>\<open>/etc/passwd\<close>.\<close>

theorem escape_is_not_found_witness:
  "url (GET ''/../../etc/passwd'') = Some ''/../../etc/passwd'' \<and>
   url_parse_pathname posix_node ''/../../etc/passwd'' = Inr (Some ''/../../etc/passwd'') \<and>
   path_normalize posix_node (path_join posix_node [rootDir www_server, ''/../../etc/passwd''])
     = ''/etc/passwd'' \<and>
   fsSafeRead example_fs ''/etc/passwd'' = Some ''root:x:0:0'' \<and>
   statuses (handle serveFile posix_node www_server example_fs 0 (GET ''/../../etc/passwd''))
     = [404] \<and>
   probes (handle serveFile posix_node www_server example_fs 0 (GET ''/../../etc/passwd'')) = []"
proof -
  have u: "url (GET ''/../../etc/passwd'') = Some ''/../../etc/passwd''"
    by (simp add: GET_def)
  have p: "url_parse_pathname posix_node ''/../../etc/passwd'' = Inr (Some ''/../../etc/passwd'')"
    by code_simp
  have c: "path_normalize posix_node (path_join posix_node [rootDir www_server, ''/../../etc/passwd''])
             = ''/etc/passwd''"
    by code_simp
  have n: "take (length (rootDir www_server))
             (path_normalize posix_node (path_join posix_node [rootDir www_server, ''/../../etc/passwd'']))
           \<noteq> rootDir www_server"
    unfolding c by (simp add: www_server_def)
  have f: "fsSafeRead example_fs ''/etc/passwd'' = Some ''root:x:0:0''"
    by code_simp
  from escape_is_not_found_without_probe [OF u p n, of serveFile example_fs 0] u p c f
  show ?thesis by simp
qed

text \<open>
  Claim C2.  The check is a comparison of the first \<^verbatim>\<open>rootDir.length\<close> characters and
  nothing more: no separator is required after them.  The server made by
  \<^verbatim>\<open>createServer({ rootDir: '/srv/www', etag: false, expires: 0 })\<close> answers
  \<^verbatim>\<open>GET /../wwwevil/secret.txt\<close> with status 200 and the bytes of
  \<^verbatim>\<open>/srv/wwwevil/secret.txt\<close>: the candidate begins with \<^verbatim>\<open>/srv/www\<close>, is not
  \<^verbatim>\<open>/srv/www\<close> and does not begin with \<^verbatim>\<open>/srv/www/\<close>.
\<close>

theorem sibling_directory_is_served:
  "createServer posix_node example_fs
     \<lparr>opt_rootDir = Some ''/srv/www'', opt_etag = Some False, opt_expires = Some 0\<rparr>
     = Inr www_server \<and>
   path_normalize posix_node (path_join posix_node [rootDir www_server, ''/../wwwevil/secret.txt''])
     = ''/srv/wwwevil/secret.txt'' \<and>
   take (length (rootDir www_server)) ''/srv/wwwevil/secret.txt'' = rootDir www_server \<and>
   ''/srv/wwwevil/secret.txt'' \<noteq> rootDir www_server \<and>
   take (length (rootDir www_server @ ''/'')) ''/srv/wwwevil/secret.txt''
     \<noteq> rootDir www_server @ ''/'' \<and>
   handle serveFile posix_node www_server example_fs 0 (GET ''/../wwwevil/secret.txt'') =
     \<lparr>res = [WriteHead 200 ''OK''
               [(''Content-Encoding'', Str ''utf8''), (''Content-Length'', Num 10)],
             End (Some ''top secret'')],
      console = [''Unhandled mime-type for ext name: .txt''],
      probes = [ReadFile ''/srv/wwwevil/secret.txt'']\<rparr>"
  by (intro conjI; code_simp)

section \<open>Directories and the trailing separator\<close>

lemma expectedRequestPath_cases:
  "expectedRequestPath N S requestedPath =
     (let r = replace_backslashes (path_relative N (rootDir S) requestedPath)
      in if r = [] then ''/'' else if hd r = CHR ''/'' then r @ ''/'' else ''/'' @ r @ ''/'')"
  by (cases "replace_backslashes (path_relative N (rootDir S) requestedPath)")
    (simp_all add: expectedRequestPath_def Let_def)

text \<open>
  Claim C3, as stated, fails at the root directory itself.  For \<^verbatim>\<open>GET /\<close> the candidate
  is \<^verbatim>\<open>/srv/www/\<close>, reading it as a file fails and it is a directory; its path relative
  to the root is empty, so the formula \<^verbatim>\<open>"/" + relativePath + "/"\<close> gives \<^verbatim>\<open>//\<close>, which differs
  from the pathname \<^verbatim>\<open>/\<close>.  The handler does not redirect: it serves \<^verbatim>\<open>index.html\<close>
  with status 200 and sets no \<^verbatim>\<open>Location\<close>.
\<close>

theorem root_directory_is_not_redirected:
  "path_normalize posix_node (path_join posix_node [rootDir www_server, ''/'']) = ''/srv/www/'' \<and>
   fsSafeRead example_fs ''/srv/www/'' = None \<and>
   fsSafeStat example_fs ''/srv/www/'' = Some (Stats True) \<and>
   spec_expected_path posix_node www_server ''/srv/www/'' = ''//'' \<and>
   ''/'' \<noteq> spec_expected_path posix_node www_server ''/srv/www/'' \<and>
   statuses (handle serveFile posix_node www_server example_fs 0 (GET ''/'')) = [200] \<and>
   header_value ''Location'' (handle serveFile posix_node www_server example_fs 0 (GET ''/''))
     = None \<and>
   probes (handle serveFile posix_node www_server example_fs 0 (GET ''/'')) =
     [ReadFile ''/srv/www/'', Stat ''/srv/www/'', ReadFile ''/srv/www/index.html'']"
  by (intro conjI; code_simp)

text \<open>
  Claim C3, amended.  The expected path is the relative path (backslashes replaced)
  followed by \<^verbatim>\<open>/\<close>, and \<^verbatim>\<open>/\<close> is put in front of it only when it does not already begin
  with one: it is \<^verbatim>\<open>/\<close> for the root directory, and \<^verbatim>\<open>"/" + relativePath + "/"\<close> for a
  non-empty relative path that does not begin with \<^verbatim>\<open>/\<close>.  When a GET request resolves to
  a directory (the candidate passes the containment check, reading it as a file fails,
  \<^verbatim>\<open>stat\<close> reports a directory) and its pathname differs from that expected path, the answer
  is 302 Found with \<^verbatim>\<open>Location\<close> set to the expected path and the body
  \<^verbatim>\<open>Location: <expected>\<close>; the only file-system calls are the read and the \<^verbatim>\<open>stat\<close> of the
  candidate, so no file, \<^verbatim>\<open>index.html\<close> or listing is read or served.
\<close>

theorem directory_redirect:
  assumes "req_method req = Some ''GET''"
    and "url req = Some u"
    and "u \<noteq> []"
    and "url_parse_pathname N u = Inr (Some pathname)"
    and "pathname \<noteq> []"
    and "requestedPath = path_normalize N (path_join N [rootDir S, pathname])"
    and "take (length (rootDir S)) requestedPath = rootDir S"
    and "fsSafeRead F requestedPath = None"
    and "fsSafeStat F requestedPath = Some stats"
    and "stats_isDirectory stats"
    and "pathname \<noteq> expectedRequestPath N S requestedPath"
  shows "handle sf N S F now req =
           \<lparr>res = [WriteHead 302 ''Found''
                     [(''Location'', Str (expectedRequestPath N S requestedPath))],
                   End (Some (''Location: '' @ expectedRequestPath N S requestedPath))],
            console = [],
            probes = [ReadFile requestedPath, Stat requestedPath]\<rparr>
         \<and> expectedRequestPath N S requestedPath =
             (let r = replace_backslashes (path_relative N (rootDir S) requestedPath)
              in if r = [] then ''/'' else if hd r = CHR ''/'' then r @ ''/'' else ''/'' @ r @ ''/'')"
proof
  show "handle sf N S F now req =
           \<lparr>res = [WriteHead 302 ''Found''
                     [(''Location'', Str (expectedRequestPath N S requestedPath))],
                   End (Some (''Location: '' @ expectedRequestPath N S requestedPath))],
            console = [],
            probes = [ReadFile requestedPath, Stat requestedPath]\<rparr>"
    using assms
    by (simp add: handle_def doHandle_def Let_def redirect_def probing_def)
next
  show "expectedRequestPath N S requestedPath =
             (let r = replace_backslashes (path_relative N (rootDir S) requestedPath)
              in if r = [] then ''/'' else if hd r = CHR ''/'' then r @ ''/'' else ''/'' @ r @ ''/'')"
    by (rule expectedRequestPath_cases)
qed

text \<open>\<^verbatim>\<open>GET /sub\<close> for the existing directory \<^verbatim>\<open>/srv/www/sub\<close>: 302 with
  \<^verbatim>\<open>Location: /sub/\<close>.\<close>

theorem directory_redirect_witness:
  "path_normalize posix_node (path_join posix_node [rootDir www_server, ''/sub'']) = ''/srv/www/sub'' \<and>
   expectedRequestPath posix_node www_server ''/srv/www/sub'' = ''/sub/'' \<and>
   handle serveFile posix_node www_server example_fs 0 (GET ''/sub'') =
     \<lparr>res = [WriteHead 302 ''Found'' [(''Location'', Str ''/sub/'')],
             End (Some ''Location: /sub/'')],
      console = [],
      probes = [ReadFile ''/srv/www/sub'', Stat ''/srv/www/sub'']\<rparr>"
proof -
  have m: "req_method (GET ''/sub'') = Some ''GET''" and u: "url (GET ''/sub'') = Some ''/sub''"
    by (simp_all add: GET_def)
  have p: "url_parse_pathname posix_node ''/sub'' = Inr (Some ''/sub'')"
    by code_simp
  have c: "''/srv/www/sub'' = path_normalize posix_node (path_join posix_node [rootDir www_server, ''/sub''])"
    by code_simp
  have k: "take (length (rootDir www_server)) ''/srv/www/sub'' = rootDir www_server"
    by code_simp
  have r: "fsSafeRead example_fs ''/srv/www/sub'' = None"
    by code_simp
  have s: "fsSafeStat example_fs ''/srv/www/sub'' = Some (Stats True)"
    by code_simp
  have e: "expectedRequestPath posix_node www_server ''/srv/www/sub'' = ''/sub/''"
    by code_simp
  have d: "''/sub'' \<noteq> expectedRequestPath posix_node www_server ''/srv/www/sub''"
    unfolding e by simp
  from directory_redirect [OF m u _ p _ c k r s _ d, of serveFile 0] c e
  show ?thesis by simp
qed

section \<open>Two runs of the handler, related\<close>

text \<open>\<^verbatim>\<open>doHandle\<close> reads the clock, the request headers and the file writer only through
  its calls of the file writer: a relation between two file writers lifts to the two
  handlers, for requests with the same method and URL.\<close>

lemma doHandle_rel:
  assumes "req_method r2 = req_method r1" and "url r2 = url r1"
    and nf: "\<And>extra. R (notFound extra) (notFound extra)"
    and rd: "\<And>location. R (redirect location) (redirect location)"
    and pr: "\<And>p a b. R a b \<Longrightarrow> R (probing p a) (probing p b)"
    and sf: "\<And>extname content. R (sf1 N S t1 r1 extname content) (sf2 N S t2 r2 extname content)"
  shows "rel_sum (=) R (doHandle sf1 N S F t1 r1) (doHandle sf2 N S F t2 r2)"
  using assms(1,2)
  by (auto simp: doHandle_def Let_def serveDir_def nf rd sf intro!: pr
      split: option.splits sum.splits)

lemma handle_rel:
  assumes "req_method r2 = req_method r1" and "url r2 = url r1"
    and nf: "\<And>extra. R (notFound extra) (notFound extra)"
    and rd: "\<And>location. R (redirect location) (redirect location)"
    and pr: "\<And>p a b. R a b \<Longrightarrow> R (probing p a) (probing p b)"
    and sf: "\<And>extname content. R (sf1 N S t1 r1 extname content) (sf2 N S t2 r2 extname content)"
    and ise: "\<And>msg. R \<lparr>res = [WriteHead 500 ''Internal Server Error'' [],
                               End (Some ''Internal Server Error'')],
                        console = [msg], probes = []\<rparr>
                      \<lparr>res = [WriteHead 500 ''Internal Server Error'' [],
                               End (Some ''Internal Server Error'')],
                        console = [msg], probes = []\<rparr>"
  shows "R (handle sf1 N S F t1 r1) (handle sf2 N S F t2 r2)"
proof -
  have "rel_sum (=) R (doHandle sf1 N S F t1 r1) (doHandle sf2 N S F t2 r2)"
    by (rule doHandle_rel) (fact assms(1), fact assms(2), rule nf, rule rd, erule pr, rule sf)
  then show ?thesis
    by (auto simp: handle_def ise elim!: rel_sum.cases split: error.splits)
qed

lemma statuses_probing: "statuses (probing p e) = statuses e"
  by (simp add: statuses_def res_probing)

lemma bodies_probing: "bodies (probing p e) = bodies e"
  by (simp add: bodies_def res_probing)

lemma header_value_probing: "header_value k (probing p e) = header_value k e"
  by (simp add: header_value_def sent_headers_def res_probing)

lemma sent_headers_probing: "sent_headers (probing p e) = sent_headers e"
  by (simp add: sent_headers_def res_probing)

lemma map_of_set_header: "map_of (set_header k v hs) = (map_of hs)(k \<mapsto> v)"
  by (simp add: set_header_def update_conv')

section \<open>The entity tag\<close>

lemma tail_etag:
  assumes "useETag S"
  shows "statuses (serveFile_tail N S now req hs logged content) =
           [if headers req ''if-none-match'' = Some (md5_hex N content) then 304 else 200]"
    and "bodies (serveFile_tail N S now req hs logged content) =
           [if headers req ''if-none-match'' = Some (md5_hex N content) then None
            else Some content]"
    and "header_value ''ETag'' (serveFile_tail N S now req hs logged content) =
           Some (Str (md5_hex N content))"
  using assms
  by (simp_all add: serveFile_tail_def Let_def statuses_def bodies_def header_value_def
      sent_headers_def List.map_filter_simps map_of_set_header)

lemma tail_no_etag:
  assumes "\<not> useETag S"
  shows "statuses (serveFile_tail N S now req hs logged content) = [200]"
    and "header_value ''ETag'' (serveFile_tail N S now req hs logged content) = map_of hs ''ETag''"
  using assms
  by (simp_all add: serveFile_tail_def Let_def statuses_def header_value_def
      sent_headers_def List.map_filter_simps map_of_set_header)

lemma writer_is_tail:
  assumes "sf = serveFile \<or> sf = serveFile_out"
  shows "\<exists>hs logged.
           (\<forall>now req. sf N S now req extname content
                          = serveFile_tail N S now req hs logged content)
           \<and> map_of hs ''ETag'' = None"
  using assms
proof
  assume sf: "sf = serveFile"
  obtain hs logged where sw: "mime_switch extname [(''Content-Encoding'', Str ''utf8'')] = (hs, logged)"
    by (cases "mime_switch extname [(''Content-Encoding'', Str ''utf8'')]")
  have "map_of hs ''ETag'' = None"
    using sw by (auto simp: mime_switch_def map_of_set_header split: if_splits)
  moreover have "\<forall>now req. sf N S now req extname content
                   = serveFile_tail N S now req hs logged content"
    by (simp add: sf serveFile_def sw)
  ultimately show ?thesis by blast
next
  assume sf: "sf = serveFile_out"
  obtain hs logged where sw: "mime_switch_out extname [] = (hs, logged)"
    by (cases "mime_switch_out extname []")
  have "map_of hs ''ETag'' = None"
    using sw by (auto simp: mime_switch_out_def map_of_set_header split: if_splits)
  moreover have "\<forall>now req. sf N S now req extname content
                   = serveFile_tail N S now req hs logged content"
    by (simp add: sf serveFile_out_def sw)
  ultimately show ?thesis by blast
qed

lemma writer_etag:
  assumes "useETag S" and sf: "sf = serveFile \<or> sf = serveFile_out"
  shows "statuses (sf N S now req extname content) =
           [if headers req ''if-none-match'' = Some (md5_hex N content) then 304 else 200]"
    and "bodies (sf N S now req extname content) =
           [if headers req ''if-none-match'' = Some (md5_hex N content) then None
            else Some content]"
    and "header_value ''ETag'' (sf N S now req extname content) = Some (Str (md5_hex N content))"
proof -
  obtain hs logged where
    t: "\<And>now req. sf N S now req extname content = serveFile_tail N S now req hs logged content"
    using writer_is_tail [OF sf, of N S extname content] by blast
  show "statuses (sf N S now req extname content) =
           [if headers req ''if-none-match'' = Some (md5_hex N content) then 304 else 200]"
    and "bodies (sf N S now req extname content) =
           [if headers req ''if-none-match'' = Some (md5_hex N content) then None
            else Some content]"
    and "header_value ''ETag'' (sf N S now req extname content) = Some (Str (md5_hex N content))"
    unfolding t by (rule tail_etag [OF assms(1)])+
qed

lemma writer_rerequest:
  assumes sf: "sf = serveFile \<or> sf = serveFile_out"
    and "statuses (sf N S now req extname content) = [200]"
    and "header_value ''ETag'' (sf N S now req extname content) = Some (Str e)"
  shows "statuses (sf N S now' (req\<lparr>headers := (headers req)(''if-none-match'' \<mapsto> e)\<rparr>) extname content) = [304]
       \<and> bodies (sf N S now' (req\<lparr>headers := (headers req)(''if-none-match'' \<mapsto> e)\<rparr>) extname content) = [None]
       \<and> header_value ''ETag'' (sf N S now' (req\<lparr>headers := (headers req)(''if-none-match'' \<mapsto> e)\<rparr>) extname content) = Some (Str e)"
proof -
  obtain hs logged where
    t: "\<And>now req. sf N S now req extname content = serveFile_tail N S now req hs logged content"
    and n: "map_of hs ''ETag'' = None"
    using writer_is_tail [OF sf, of N S extname content] by blast
  have u: "useETag S"
    using assms(3) n unfolding t by (cases "useETag S") (simp_all add: tail_no_etag)
  have e: "e = md5_hex N content"
    using assms(3) unfolding t by (simp add: tail_etag [OF u])
  show ?thesis
    unfolding t by (simp add: tail_etag [OF u] e)
qed

lemma tail_res_etag:
  assumes "useETag S"
  shows "\<exists>hs'. res (serveFile_tail N S now req hs logged content) =
           (if headers req ''if-none-match'' = Some (md5_hex N content)
            then [WriteHead 304 ''Not modified'' hs', End None]
            else [WriteHead 200 ''OK'' hs', End (Some content)])
         \<and> map_of hs' ''ETag'' = Some (Str (md5_hex N content))"
  using assms
  by (simp add: serveFile_tail_def Let_def map_of_set_header)

lemma handle_rerequest:
  assumes sf: "sf = serveFile \<or> sf = serveFile_out"
    and "statuses (handle sf N S F now req) = [200]"
    and "header_value ''ETag'' (handle sf N S F now req) = Some (Str e)"
  shows "statuses (handle sf N S F now' (req\<lparr>headers := (headers req)(''if-none-match'' \<mapsto> e)\<rparr>)) = [304]
       \<and> bodies (handle sf N S F now' (req\<lparr>headers := (headers req)(''if-none-match'' \<mapsto> e)\<rparr>)) = [None]
       \<and> header_value ''ETag'' (handle sf N S F now' (req\<lparr>headers := (headers req)(''if-none-match'' \<mapsto> e)\<rparr>))
           = Some (Str e)"
proof -
  let ?req' = "req\<lparr>headers := (headers req)(''if-none-match'' \<mapsto> e)\<rparr>"
  let ?R = "\<lambda>a b. statuses a = [200] \<and> header_value ''ETag'' a = Some (Str e) \<longrightarrow>
              statuses b = [304] \<and> bodies b = [None] \<and> header_value ''ETag'' b = Some (Str e)"
  have "?R (handle sf N S F now req) (handle sf N S F now' ?req')"
  proof (rule handle_rel)
    show "req_method ?req' = req_method req" and "url ?req' = url req"
      by simp_all
  next
    fix extra show "?R (notFound extra) (notFound extra)"
      by (simp add: notFound_def statuses_def List.map_filter_simps)
  next
    fix location show "?R (redirect location) (redirect location)"
      by (simp add: redirect_def statuses_def List.map_filter_simps)
  next
    fix p a b assume "?R a b"
    then show "?R (probing p a) (probing p b)"
      by (simp add: statuses_probing bodies_probing header_value_probing)
  next
    fix extname content
    show "?R (sf N S now req extname content) (sf N S now' ?req' extname content)"
      using writer_rerequest [OF sf, of N S now req extname content e now'] by blast
  next
    fix msg
    show "?R \<lparr>res = [WriteHead 500 ''Internal Server Error'' [],
                     End (Some ''Internal Server Error'')],
              console = [msg], probes = []\<rparr>
            \<lparr>res = [WriteHead 500 ''Internal Server Error'' [],
                     End (Some ''Internal Server Error'')],
              console = [msg], probes = []\<rparr>"
      by (simp add: statuses_def List.map_filter_simps)
  qed
  with assms(2,3) show ?thesis by blast
qed

text \<open>
  Claim C4.  With \<^verbatim>\<open>etag\<close> enabled, the file writer (of either file) answers a request
  whose \<^verbatim>\<open>if-none-match\<close> header equals the hex MD5 digest of the content with
  304 Not modified and \<^verbatim>\<open>res.end()\<close> without a body; any other request gets 200 OK with the
  content as body; in both answers the \<^verbatim>\<open>ETag\<close> header is that digest.  And when the
  handler has answered a request with 200 and an \<^verbatim>\<open>ETag\<close> \<open>e\<close>, the same request with
  \<^verbatim>\<open>if-none-match\<close> set to \<open>e\<close>, on the same file system at any later time, is answered
  with 304 and no body.
\<close>

theorem etag_not_modified:
  assumes "useETag S" and "sf = serveFile \<or> sf = serveFile_out"
  shows "(headers req ''if-none-match'' = Some (md5_hex N content) \<longrightarrow>
            (\<exists>hs. res (sf N S now req extname content)
                    = [WriteHead 304 ''Not modified'' hs, End None]
                  \<and> map_of hs ''ETag'' = Some (Str (md5_hex N content))))
       \<and> (headers req ''if-none-match'' \<noteq> Some (md5_hex N content) \<longrightarrow>
            (\<exists>hs. res (sf N S now req extname content)
                    = [WriteHead 200 ''OK'' hs, End (Some content)]
                  \<and> map_of hs ''ETag'' = Some (Str (md5_hex N content))))
       \<and> (statuses (handle sf N S F now req) = [200]
            \<and> header_value ''ETag'' (handle sf N S F now req) = Some (Str e) \<longrightarrow>
          statuses (handle sf N S F now'
                      (req\<lparr>headers := (headers req)(''if-none-match'' \<mapsto> e)\<rparr>)) = [304]
            \<and> bodies (handle sf N S F now'
                      (req\<lparr>headers := (headers req)(''if-none-match'' \<mapsto> e)\<rparr>)) = [None])"
proof -
  obtain hs logged where
    t: "\<And>now req. sf N S now req extname content = serveFile_tail N S now req hs logged content"
    using writer_is_tail [OF assms(2), of N S extname content] by blast
  obtain hs' where
    r: "res (sf N S now req extname content) =
          (if headers req ''if-none-match'' = Some (md5_hex N content)
           then [WriteHead 304 ''Not modified'' hs', End None]
           else [WriteHead 200 ''OK'' hs', End (Some content)])"
    and h: "map_of hs' ''ETag'' = Some (Str (md5_hex N content))"
    unfolding t using tail_res_etag [OF assms(1), of N now req hs logged content] by blast
  have a: "headers req ''if-none-match'' = Some (md5_hex N content) \<longrightarrow>
            (\<exists>hs. res (sf N S now req extname content)
                    = [WriteHead 304 ''Not modified'' hs, End None]
                  \<and> map_of hs ''ETag'' = Some (Str (md5_hex N content)))"
    using r h by simp
  have b: "headers req ''if-none-match'' \<noteq> Some (md5_hex N content) \<longrightarrow>
            (\<exists>hs. res (sf N S now req extname content)
                    = [WriteHead 200 ''OK'' hs, End (Some content)]
                  \<and> map_of hs ''ETag'' = Some (Str (md5_hex N content)))"
    using r h by simp
  from a b handle_rerequest [OF assms(2), of N S F now req e now'] show ?thesis
    by blast
qed

text \<open>\<^verbatim>\<open>GET /a.txt\<close> is answered with 200 and the digest of \<^verbatim>\<open>hello\<close> as \<^verbatim>\<open>ETag\<close>; the same
  request with that digest in \<^verbatim>\<open>if-none-match\<close> is answered with 304 and no body.\<close>

theorem etag_not_modified_witness:
  "useETag www_etag_server \<and>
   statuses (handle serveFile posix_node www_etag_server example_fs 0 (GET ''/a.txt'')) = [200] \<and>
   bodies (handle serveFile posix_node www_etag_server example_fs 0 (GET ''/a.txt''))
     = [Some ''hello''] \<and>
   header_value ''ETag'' (handle serveFile posix_node www_etag_server example_fs 0 (GET ''/a.txt''))
     = Some (Str ''5d41402abc4b2a76b9719d911017c592'') \<and>
   statuses (handle serveFile posix_node www_etag_server example_fs 1000
      ((GET ''/a.txt'')\<lparr>headers := (headers (GET ''/a.txt''))
          (''if-none-match'' \<mapsto> ''5d41402abc4b2a76b9719d911017c592'')\<rparr>)) = [304] \<and>
   bodies (handle serveFile posix_node www_etag_server example_fs 1000
      ((GET ''/a.txt'')\<lparr>headers := (headers (GET ''/a.txt''))
          (''if-none-match'' \<mapsto> ''5d41402abc4b2a76b9719d911017c592'')\<rparr>)) = [None]"
proof -
  have u: "useETag www_etag_server"
    by (simp add: www_etag_server_def)
  have s: "statuses (handle serveFile posix_node www_etag_server example_fs 0 (GET ''/a.txt'')) = [200]"
    by code_simp
  have b: "bodies (handle serveFile posix_node www_etag_server example_fs 0 (GET ''/a.txt''))
             = [Some ''hello'']"
    by code_simp
  have e: "header_value ''ETag'' (handle serveFile posix_node www_etag_server example_fs 0 (GET ''/a.txt''))
             = Some (Str ''5d41402abc4b2a76b9719d911017c592'')"
    by code_simp
  from etag_not_modified [OF u, of serveFile "GET ''/a.txt''" posix_node "''hello''" 0 "''.txt''"
      example_fs "''5d41402abc4b2a76b9719d911017c592''" 1000] u s b e
  show ?thesis by simp
qed

section \<open>The pathname\<close>

text \<open>
  Claim C6, as stated, fails: the handler resolves the pathname that \<^verbatim>\<open>url.parse\<close> returns
  and never decodes it.  For \<^verbatim>\<open>GET /a%20b.txt\<close> the pathname is \<^verbatim>\<open>/a%20b.txt\<close>, while the
  percent-decoded path is \<^verbatim>\<open>/a b.txt\<close>; the file \<^verbatim>\<open>/srv/www/a b.txt\<close> exists, but the
  handler probes \<^verbatim>\<open>/srv/www/a%20b.txt\<close> and answers 404.
\<close>

theorem percent_escapes_are_not_decoded:
  "url_parse_pathname posix_node ''/a%20b.txt'' = Inr (Some ''/a%20b.txt'') \<and>
   spec_percent_decode ''/a%20b.txt'' = ''/a b.txt'' \<and>
   fsSafeRead example_fs
     (path_normalize posix_node
        (path_join posix_node [rootDir www_server, spec_percent_decode ''/a%20b.txt'']))
     = Some ''hello'' \<and>
   handle serveFile posix_node www_server example_fs 0 (GET ''/a%20b.txt'') =
     \<lparr>res = [WriteHead 404 ''Not found'' [], End (Some ''Not found - 4'')],
      console = [],
      probes = [ReadFile ''/srv/www/a%20b.txt'', Stat ''/srv/www/a%20b.txt'']\<rparr>"
  by (intro conjI; code_simp)

text \<open>
  Claim C6, amended.  For every GET request with a non-empty URL, the pathname used for
  resolution is \<^verbatim>\<open>url.parse(req.url).pathname\<close> exactly as the parser returns it (the
  parser drops the query string and the fragment; the handler applies no decoding): the
  candidate is \<^verbatim>\<open>normalize(join(rootDir, pathname))\<close>, it is the first path probed when it
  passes the containment check, and the answer is 404 when it does not.  A \<^verbatim>\<open>null\<close> or
  empty pathname yields 404 without any probe.
\<close>

theorem pathname_is_used_as_parsed:
  assumes "req_method req = Some ''GET''" and "url req = Some u" and "u \<noteq> []"
  shows "(url_parse_pathname N u = Inr None \<or> url_parse_pathname N u = Inr (Some []) \<longrightarrow>
            handle sf N S F now req = notFound ''2'')
       \<and> (url_parse_pathname N u = Inr (Some pathname) \<and> pathname \<noteq> [] \<longrightarrow>
            (if take (length (rootDir S)) (path_normalize N (path_join N [rootDir S, pathname]))
                  = rootDir S
             then take 1 (probes (handle sf N S F now req))
                    = [ReadFile (path_normalize N (path_join N [rootDir S, pathname]))]
             else handle sf N S F now req = notFound ''3''))"
  using assms
  by (auto simp: handle_def doHandle_def Let_def probes_probing)

text \<open>\<^verbatim>\<open>GET /a%20b.txt?x=1#top\<close>: the pathname is \<^verbatim>\<open>/a%20b.txt\<close> and the first probe reads
  \<^verbatim>\<open>/srv/www/a%20b.txt\<close>.  \<^verbatim>\<open>GET ?x=1\<close>: there is no pathname and the answer is 404.\<close>

theorem pathname_is_used_as_parsed_witness:
  "url_parse_pathname posix_node ''/a%20b.txt?x=1#top'' = Inr (Some ''/a%20b.txt'') \<and>
   take 1 (probes (handle serveFile posix_node www_server example_fs 0
                     (GET ''/a%20b.txt?x=1#top'')))
     = [ReadFile ''/srv/www/a%20b.txt''] \<and>
   url_parse_pathname posix_node ''?x=1'' = Inr None \<and>
   handle serveFile posix_node www_server example_fs 0 (GET ''?x=1'') =
     \<lparr>res = [WriteHead 404 ''Not found'' [], End (Some ''Not found - 2'')],
      console = [], probes = []\<rparr>"
proof -
  have m: "\<And>v. req_method (GET v) = Some ''GET''" and u: "\<And>v. url (GET v) = Some v"
    by (simp_all add: GET_def)
  have p: "url_parse_pathname posix_node ''/a%20b.txt?x=1#top'' = Inr (Some ''/a%20b.txt'')"
    by code_simp
  have c: "path_normalize posix_node (path_join posix_node [rootDir www_server, ''/a%20b.txt''])
             = ''/srv/www/a%20b.txt''"
    by code_simp
  have k: "take (length (rootDir www_server)) ''/srv/www/a%20b.txt'' = rootDir www_server"
    by code_simp
  have q: "url_parse_pathname posix_node ''?x=1'' = Inr None"
    by code_simp
  have n: "notFound ''2'' = \<lparr>res = [WriteHead 404 ''Not found'' [], End (Some ''Not found - 2'')],
                             console = [], probes = []\<rparr>"
    by (simp add: notFound_def)
  from pathname_is_used_as_parsed [where req = "GET ''/a%20b.txt?x=1#top''"
      and u = "''/a%20b.txt?x=1#top''" and N = posix_node and pathname = "''/a%20b.txt''"
      and S = www_server and sf = serveFile and F = example_fs and now = 0]
    pathname_is_used_as_parsed [where req = "GET ''?x=1''"
      and u = "''?x=1''" and N = posix_node and pathname = "[]"
      and S = www_server and sf = serveFile and F = example_fs and now = 0]
    m u
    p c k q n
  show ?thesis by simp
qed

section \<open>Independence of the clock\<close>

lemma tail_clock:
  "same_body_and_etag (serveFile_tail N S t1 req hs logged content)
                      (serveFile_tail N S t2 req hs logged content)"
  by (simp add: same_body_and_etag_def serveFile_tail_def Let_def statuses_def bodies_def
      header_value_def sent_headers_def List.map_filter_simps map_of_set_header)

lemma writer_clock:
  assumes "sf = serveFile \<or> sf = serveFile_out"
  shows "same_body_and_etag (sf N S t1 req extname content) (sf N S t2 req extname content)"
proof -
  obtain hs logged where
    t: "\<And>now req. sf N S now req extname content = serveFile_tail N S now req hs logged content"
    using writer_is_tail [OF assms, of N S extname content] by blast
  show ?thesis unfolding t by (rule tail_clock)
qed

lemma handle_clock:
  assumes sf: "sf = serveFile \<or> sf = serveFile_out"
  shows "same_body_and_etag (handle sf N S F t1 req) (handle sf N S F t2 req)"
proof (rule handle_rel)
  show "req_method req = req_method req" and "url req = url req"
    by simp_all
next
  fix p a b assume "same_body_and_etag a b"
  then show "same_body_and_etag (probing p a) (probing p b)"
    by (simp add: same_body_and_etag_def statuses_probing bodies_probing header_value_probing)
next
  fix extname content
  show "same_body_and_etag (sf N S t1 req extname content) (sf N S t2 req extname content)"
    by (rule writer_clock [OF sf])
qed (simp_all add: same_body_and_etag_def)

text \<open>
  Claim C9.  With the same runtime, server, file system and request, the handler run at two
  clock readings \<open>t1\<close> and \<open>t2\<close> makes the same \<^verbatim>\<open>end\<close> calls with byte-identical bodies,
  sends the same status and the same \<^verbatim>\<open>ETag\<close> header value (or none both times).  Only
  the value of \<^verbatim>\<open>Expires\<close> depends on the clock.  This holds for \<^verbatim>\<open>src/index.ts\<close> and for
  \<^verbatim>\<open>out/index.js\<close>.
\<close>

theorem body_and_etag_do_not_depend_on_clock:
  "same_body_and_etag (handle serveFile N S F t1 req) (handle serveFile N S F t2 req) \<and>
   same_body_and_etag (handle serveFile_out N S F t1 req) (handle serveFile_out N S F t2 req)"
  by (simp add: handle_clock)

section \<open>The headers of the two files\<close>

lemma keys_set_header: "fst ` set (set_header k v hs) = insert k (fst ` set hs)"
  by (simp add: set_header_def dom_update)

lemma tail_header_value:
  "header_value k (serveFile_tail N S now req hs logged content) =
     (if k = ''Content-Length'' \<and> statuses (serveFile_tail N S now req hs logged content) = [200]
      then Some (Num (byteLength content))
      else if k = ''ETag'' \<and> useETag S then Some (Str (md5_hex N content))
      else if k = ''Expires'' \<and> expires S \<noteq> 0 then Some (Str (toUTCString N (now + expires S)))
      else map_of hs k)"
  by (simp add: serveFile_tail_def Let_def statuses_def header_value_def sent_headers_def
      List.map_filter_simps map_of_set_header)

lemma tail_header_keys:
  "fst ` set (sent_headers (serveFile_tail N S now req hs logged content))
     \<subseteq> fst ` set hs \<union> {''Expires'', ''ETag'', ''Content-Length''}"
  by (auto simp: serveFile_tail_def Let_def sent_headers_def keys_set_header)

lemma tail_status_body:
  "statuses (serveFile_tail N S now req hs logged content) =
     [if useETag S \<and> headers req ''if-none-match'' = Some (md5_hex N content) then 304 else 200]"
  "bodies (serveFile_tail N S now req hs logged content) =
     [if useETag S \<and> headers req ''if-none-match'' = Some (md5_hex N content) then None
      else Some content]"
  "probes (serveFile_tail N S now req hs logged content) = []"
  by (simp_all add: serveFile_tail_def Let_def statuses_def bodies_def List.map_filter_simps)

text \<open>The \<^verbatim>\<open>Content-Type\<close> that each file writer sends, as a table.\<close>

lemma src_content_type:
  "header_value ''Content-Type'' (serveFile N S now req extname content) =
     map_option Str
       (map_of [(''.html'', ''text/html''), (''.htm'', ''text/html''), (''.js'', ''text/javascript''),
                (''.css'', ''text/css''), (''.ttf'', ''font/ttf''), (''.svg'', ''image/svg+xml''),
                (''.wasm'', ''application/wasm'')] extname)"
  by (simp add: serveFile_def mime_switch_def tail_header_value set_header_def)

lemma out_content_type:
  "header_value ''Content-Type'' (serveFile_out N S now req extname content) =
     map_option Str
       (map_of [(''.css'', ''text/css; charset=utf-8''), (''.htm'', ''text/html; charset=utf-8''),
                (''.html'', ''text/html; charset=utf-8''),
                (''.js'', ''text/javascript; charset=utf-8''),
                (''.json'', ''application/json; charset=utf-8''), (''.png'', ''image/png''),
                (''.svg'', ''image/svg+xml''), (''.ttf'', ''font/ttf''),
                (''.txt'', ''text/plain; charset=utf-8''), (''.wasm'', ''application/wasm'')]
          extname)"
  by (simp add: serveFile_out_def mime_switch_out_def tail_header_value set_header_def)

text \<open>The file writer of \<^verbatim>\<open>src/index.ts\<close> sends \<^verbatim>\<open>Content-Encoding: utf8\<close> with every
  answer; the one of \<^verbatim>\<open>out/index.js\<close> never sends that header.\<close>

lemma src_content_encoding:
  "header_value ''Content-Encoding'' (serveFile N S now req extname content) = Some (Str ''utf8'')"
  by (simp add: serveFile_def mime_switch_def tail_header_value set_header_def)

lemma out_file_header_keys:
  "fst ` set (sent_headers (serveFile_out N S now req extname content))
     \<subseteq> {''Content-Type'', ''Content-Length'', ''Expires'', ''ETag'', ''Location''}"
proof -
  obtain hs logged where sw: "mime_switch_out extname [] = (hs, logged)"
    by (cases "mime_switch_out extname []")
  have "fst ` set hs \<subseteq> {''Content-Type''}"
    using sw by (auto simp: mime_switch_out_def set_header_def split: if_splits)
  with tail_header_keys [of N S now req hs logged content] show ?thesis
    by (auto simp: serveFile_out_def sw)
qed

text \<open>In \<^verbatim>\<open>out/index.js\<close> the handler sends no header outside the five named ones.\<close>

lemma out_header_keys:
  "fst ` set (sent_headers (handle serveFile_out N S F now req))
     \<subseteq> {''Content-Type'', ''Content-Length'', ''Expires'', ''ETag'', ''Location''}"
proof -
  let ?R = "\<lambda>(a::effects) b. fst ` set (sent_headers b)
              \<subseteq> {''Content-Type'', ''Content-Length'', ''Expires'', ''ETag'', ''Location''}"
  have "?R (handle serveFile_out N S F now req) (handle serveFile_out N S F now req)"
  proof (rule handle_rel)
    show "req_method req = req_method req" and "url req = url req"
      by simp_all
  next
    fix p a b assume "?R a b"
    then show "?R (probing p a) (probing p b)"
      by (simp add: sent_headers_probing)
  next
    fix extname content
    show "?R (serveFile_out N S now req extname content) (serveFile_out N S now req extname content)"
      by (rule out_file_header_keys)
  qed (simp_all add: sent_headers_def notFound_def redirect_def)
  then show ?thesis .
qed

lemma out_switch_headers:
  "fst (mime_switch_out extname []) =
     (case map_of [(''.css'', ''text/css; charset=utf-8''), (''.htm'', ''text/html; charset=utf-8''),
                (''.html'', ''text/html; charset=utf-8''),
                (''.js'', ''text/javascript; charset=utf-8''),
                (''.json'', ''application/json; charset=utf-8''), (''.png'', ''image/png''),
                (''.svg'', ''image/svg+xml''), (''.ttf'', ''font/ttf''),
                (''.txt'', ''text/plain; charset=utf-8''), (''.wasm'', ''application/wasm'')]
          extname of
        Some ct \<Rightarrow> [(''Content-Type'', Str ct)]
      | None \<Rightarrow> [])"
  by (simp add: mime_switch_out_def set_header_def)

text \<open>Each header of a file answer of \<^verbatim>\<open>out/index.js\<close> is sent under its own condition.\<close>

lemma out_file_header_conditions:
  "header_value k (serveFile_out N S now req extname content) \<noteq> None \<longleftrightarrow>
     k = ''Content-Type'' \<and>
       extname \<in> set [''.css'', ''.htm'', ''.html'', ''.js'', ''.json'', ''.png'', ''.svg'',
                       ''.ttf'', ''.txt'', ''.wasm'']
     \<or> k = ''Content-Length'' \<and> statuses (serveFile_out N S now req extname content) = [200]
     \<or> k = ''ETag'' \<and> useETag S
     \<or> k = ''Expires'' \<and> expires S \<noteq> 0"
proof -
  let ?table = "[(''.css'', ''text/css; charset=utf-8''), (''.htm'', ''text/html; charset=utf-8''),
                (''.html'', ''text/html; charset=utf-8''),
                (''.js'', ''text/javascript; charset=utf-8''),
                (''.json'', ''application/json; charset=utf-8''), (''.png'', ''image/png''),
                (''.svg'', ''image/svg+xml''), (''.ttf'', ''font/ttf''),
                (''.txt'', ''text/plain; charset=utf-8''), (''.wasm'', ''application/wasm'')]"
  obtain hs logged where sw: "mime_switch_out extname [] = (hs, logged)"
    by (cases "mime_switch_out extname []")
  have hs: "hs = (case map_of ?table extname of Some ct \<Rightarrow> [(''Content-Type'', Str ct)] | None \<Rightarrow> [])"
    using out_switch_headers [of extname] by (simp only: sw fst_conv)
  have "map_of hs k \<noteq> None \<longleftrightarrow> k = ''Content-Type'' \<and> map_of ?table extname \<noteq> None"
    unfolding hs by (cases "map_of ?table extname") simp_all
  moreover have "map_of ?table extname \<noteq> None \<longleftrightarrow> extname \<in> fst ` set ?table"
    by (simp only: map_of_eq_None_iff not_not)
  moreover have "fst ` set ?table = set [''.css'', ''.htm'', ''.html'', ''.js'', ''.json'', ''.png'', ''.svg'',
                       ''.ttf'', ''.txt'', ''.wasm'']"
    by simp
  ultimately have m: "map_of hs k \<noteq> None \<longleftrightarrow> k = ''Content-Type'' \<and>
       extname \<in> set [''.css'', ''.htm'', ''.html'', ''.js'', ''.json'', ''.png'', ''.svg'',
                       ''.ttf'', ''.txt'', ''.wasm'']"
    by (simp only:)
  have t: "serveFile_out N S now req extname content = serveFile_tail N S now req hs logged content"
    by (simp add: serveFile_out_def sw)
  have "header_value k (serveFile_tail N S now req hs logged content) \<noteq> None \<longleftrightarrow>
     map_of hs k \<noteq> None
     \<or> k = ''Content-Length'' \<and> statuses (serveFile_tail N S now req hs logged content) = [200]
     \<or> k = ''ETag'' \<and> useETag S
     \<or> k = ''Expires'' \<and> expires S \<noteq> 0"
    unfolding tail_header_value by auto
  then show ?thesis
    unfolding t m .
qed

text \<open>What the two files agree on: status, body, the file-system calls, and every header
  other than \<^verbatim>\<open>Content-Type\<close> and \<^verbatim>\<open>Content-Encoding\<close>.\<close>

lemma src_out_agree_writer:
  "statuses (serveFile N S now req extname content)
     = statuses (serveFile_out N S now req extname content)"
  "bodies (serveFile N S now req extname content)
     = bodies (serveFile_out N S now req extname content)"
  "probes (serveFile N S now req extname content)
     = probes (serveFile_out N S now req extname content)"
  "k \<noteq> ''Content-Type'' \<Longrightarrow> k \<noteq> ''Content-Encoding'' \<Longrightarrow>
     header_value k (serveFile N S now req extname content)
       = header_value k (serveFile_out N S now req extname content)"
proof -
  obtain hs logged where sw: "mime_switch extname [(''Content-Encoding'', Str ''utf8'')] = (hs, logged)"
    by (cases "mime_switch extname [(''Content-Encoding'', Str ''utf8'')]")
  obtain hs' logged' where sw': "mime_switch_out extname [] = (hs', logged')"
    by (cases "mime_switch_out extname []")
  show "statuses (serveFile N S now req extname content)
          = statuses (serveFile_out N S now req extname content)"
    and "bodies (serveFile N S now req extname content)
          = bodies (serveFile_out N S now req extname content)"
    and "probes (serveFile N S now req extname content)
          = probes (serveFile_out N S now req extname content)"
    by (simp_all add: serveFile_def serveFile_out_def sw sw' tail_status_body)
  assume k: "k \<noteq> ''Content-Type''" "k \<noteq> ''Content-Encoding''"
  have "map_of hs k = None"
    using sw k by (auto simp: mime_switch_def map_of_set_header split: if_splits)
  moreover have "map_of hs' k = None"
    using sw' k by (auto simp: mime_switch_out_def map_of_set_header split: if_splits)
  ultimately show "header_value k (serveFile N S now req extname content)
                     = header_value k (serveFile_out N S now req extname content)"
    by (simp add: serveFile_def serveFile_out_def sw sw' tail_header_value tail_status_body)
qed

lemma src_out_agree:
  assumes "k \<noteq> ''Content-Type''" and "k \<noteq> ''Content-Encoding''"
  shows "statuses (handle serveFile N S F now req) = statuses (handle serveFile_out N S F now req)
       \<and> bodies (handle serveFile N S F now req) = bodies (handle serveFile_out N S F now req)
       \<and> probes (handle serveFile N S F now req) = probes (handle serveFile_out N S F now req)
       \<and> header_value k (handle serveFile N S F now req)
           = header_value k (handle serveFile_out N S F now req)"
proof (rule handle_rel)
  show "req_method req = req_method req" and "url req = url req"
    by simp_all
next
  fix p a b
  assume "statuses a = statuses b \<and> bodies a = bodies b \<and> probes a = probes b
            \<and> header_value k a = header_value k b"
  then show "statuses (probing p a) = statuses (probing p b)
           \<and> bodies (probing p a) = bodies (probing p b)
           \<and> probes (probing p a) = probes (probing p b)
           \<and> header_value k (probing p a) = header_value k (probing p b)"
    by (simp add: statuses_probing bodies_probing probes_probing header_value_probing)
next
  fix extname content
  show "statuses (serveFile N S now req extname content)
          = statuses (serveFile_out N S now req extname content)
      \<and> bodies (serveFile N S now req extname content)
          = bodies (serveFile_out N S now req extname content)
      \<and> probes (serveFile N S now req extname content)
          = probes (serveFile_out N S now req extname content)
      \<and> header_value k (serveFile N S now req extname content)
          = header_value k (serveFile_out N S now req extname content)"
    using assms by (simp add: src_out_agree_writer)
qed simp_all

text \<open>
  Claim C5.  The table of \<^verbatim>\<open>src/index.ts\<close> has no entry for \<^verbatim>\<open>.json\<close>, \<^verbatim>\<open>.png\<close> and
  \<^verbatim>\<open>.txt\<close> and adds no \<^verbatim>\<open>charset\<close>; the table of \<^verbatim>\<open>out/index.js\<close> is the one the claim
  describes (lemma \<open>out_content_type\<close>).  \<^verbatim>\<open>GET /a.txt\<close> for the existing file
  \<^verbatim>\<open>/srv/www/a.txt\<close> is answered by \<^verbatim>\<open>src/index.ts\<close> with 200 and the file's bytes but
  without a \<^verbatim>\<open>Content-Type\<close>, and a warning is logged; \<^verbatim>\<open>out/index.js\<close> sends
  \<^verbatim>\<open>text/plain; charset=utf-8\<close>.
\<close>

theorem src_serves_txt_without_content_type:
  "handle serveFile posix_node www_server example_fs 0 (GET ''/a.txt'') =
     \<lparr>res = [WriteHead 200 ''OK''
               [(''Content-Encoding'', Str ''utf8''), (''Content-Length'', Num 5)],
             End (Some ''hello'')],
      console = [''Unhandled mime-type for ext name: .txt''],
      probes = [ReadFile ''/srv/www/a.txt'']\<rparr> \<and>
   header_value ''Content-Type'' (handle serveFile posix_node www_server example_fs 0 (GET ''/a.txt''))
     = None \<and>
   header_value ''Content-Type''
       (handle serveFile_out posix_node www_server example_fs 0 (GET ''/a.txt''))
     = Some (Str ''text/plain; charset=utf-8'')"
  by (intro conjI; code_simp)

text \<open>
  Claim C8.  \<^verbatim>\<open>src/index.ts\<close> starts the header object of every file answer with
  \<^verbatim>\<open>Content-Encoding: utf8\<close> (lemma \<open>src_content_encoding\<close>), a header outside the five
  named ones; \<^verbatim>\<open>out/index.js\<close> sends only the five (lemma \<open>out_header_keys\<close>).
  \<^verbatim>\<open>GET /index.html\<close> for the existing file \<^verbatim>\<open>/srv/www/index.html\<close> is answered by
  \<^verbatim>\<open>src/index.ts\<close> with the headers \<^verbatim>\<open>Content-Encoding\<close>, \<^verbatim>\<open>Content-Type\<close> and
  \<^verbatim>\<open>Content-Length\<close>.
\<close>

theorem src_sends_content_encoding:
  "handle serveFile posix_node www_server example_fs 0 (GET ''/index.html'') =
     \<lparr>res = [WriteHead 200 ''OK''
               [(''Content-Encoding'', Str ''utf8''), (''Content-Type'', Str ''text/html''),
                (''Content-Length'', Num 5)],
             End (Some ''hello'')],
      console = [],
      probes = [ReadFile ''/srv/www/index.html'']\<rparr> \<and>
   header_value ''Content-Encoding''
       (handle serveFile posix_node www_server example_fs 0 (GET ''/index.html''))
     = Some (Str ''utf8'') \<and>
   ''Content-Encoding''
     \<notin> set [''Content-Type'', ''Content-Length'', ''Expires'', ''ETag'', ''Location'']"
  by (intro conjI; code_simp)

text \<open>
  Claim C10.  The two files do not compute the same response: for \<^verbatim>\<open>GET /a.txt\<close> they
  send different header sets and log different console lines.  They agree on the status,
  the body, the file-system calls and all headers other than \<^verbatim>\<open>Content-Type\<close> and
  \<^verbatim>\<open>Content-Encoding\<close> (lemma \<open>src_out_agree\<close>).
\<close>

theorem src_and_out_answer_differently:
  "sent_headers (handle serveFile posix_node www_server example_fs 0 (GET ''/a.txt''))
     = [(''Content-Encoding'', Str ''utf8''), (''Content-Length'', Num 5)] \<and>
   sent_headers (handle serveFile_out posix_node www_server example_fs 0 (GET ''/a.txt''))
     = [(''Content-Type'', Str ''text/plain; charset=utf-8''), (''Content-Length'', Num 5)] \<and>
   console (handle serveFile posix_node www_server example_fs 0 (GET ''/a.txt''))
     = [''Unhandled mime-type for ext name: .txt''] \<and>
   console (handle serveFile_out posix_node www_server example_fs 0 (GET ''/a.txt'')) = [] \<and>
   handle serveFile posix_node www_server example_fs 0 (GET ''/a.txt'')
     \<noteq> handle serveFile_out posix_node www_server example_fs 0 (GET ''/a.txt'')"
  by (intro conjI; code_simp)

end
